theory Spec2Isabelle
  imports Main "HOL-Library.AList"
begin

section \<open>Port allocation: core/port_manager.py\<close>

text \<open>
  The class \<open>PortManager\<close> keeps no state of its own besides the path of the registry
  file: every operation reads the JSON file again and, when it changes the mapping, writes
  the whole document back. The model therefore threads the file through every operation.

  A Python \<open>dict\<close> is an association list in insertion order (its keys are distinct);
  \<open>map_of\<close> is the lookup, \<open>AList.update\<close> the assignment \<open>d[k] = v\<close> (a new key goes
  to the end) and \<open>AList.delete\<close> the statement \<open>del d[k]\<close>.
\<close>

type_synonym ports = "(string \<times> int) list"

text \<open>
  What a JSON file can be when it is opened: missing, present but not loadable
  (\<open>open\<close> or \<open>json.load\<close> raises), or a JSON document. The document in
  \<open>port_registry.json\<close> is represented by its \<open>allocated_ports\<close> entry, \<open>None\<close>
  when the object has no such key.
\<close>

datatype 'a json_file = NoFile | Unreadable | Document 'a

type_synonym registry_file = "ports option json_file"

text \<open>
  The disk holds the registry file; \<open>writes\<close> counts how often the file has been opened
  for writing, so that "the file is not rewritten" can be told apart from "the file is
  rewritten with equal content".
\<close>

record disk =
  content :: registry_file
  writes :: nat

text \<open>
  What the host does during one call. \<open>socket.connect_ex\<close> on \<open>127.0.0.1\<close> either
  returns an integer (0 when the connection is established, an \<open>errno\<close> value otherwise,
  also after the 0.5 s timeout) or the \<open>with\<close> block raises. Writing the registry either
  succeeds, fails before the file is touched (\<open>open\<close> raises), or fails after \<open>open\<close> has
  truncated the file (\<open>json.dump\<close> raises). Reading the registry can raise although the
  file holds a document (\<open>open\<close> is refused, no descriptor is left): \<open>read_raises\<close> says
  so for each of the four places that call \<open>_load_registry\<close>, each of which runs at most
  once in a call.
\<close>

datatype connect_result = Returned int | Raised

datatype write_result = Written | OpenFailed | DumpFailed

datatype read_site =
  In_get_port_base | In_allocate_port_range | In_find_next_port_base | In_release_port_range

record host =
  connect_ex :: "int \<Rightarrow> connect_result"
  write_result :: write_result
  read_raises :: "read_site \<Rightarrow> bool"

definition MCP_BASE_PORT :: int where
  "MCP_BASE_PORT = 9000"

definition MCP_PORT_RANGE :: int where
  "MCP_PORT_RANGE = 100"

text \<open>\<open>_initialize_registry\<close>: create the empty registry when the file does not exist.\<close>

definition initialize_registry :: "host \<Rightarrow> disk \<Rightarrow> disk" where
  "initialize_registry h d =
     (if content d = NoFile then
        (case write_result h of
           Written \<Rightarrow> d\<lparr>content := Document (Some []), writes := writes d + 1\<rparr>
         | OpenFailed \<Rightarrow> d\<lparr>writes := writes d + 1\<rparr>
         | DumpFailed \<Rightarrow> d\<lparr>content := Unreadable, writes := writes d + 1\<rparr>)
      else d)"

text \<open>
  \<open>_load_registry\<close>, called at a place of the code: a missing file and every exception
  give the empty registry \<open>{"allocated_ports": {}}\<close>.
\<close>

definition load_registry :: "host \<Rightarrow> read_site \<Rightarrow> disk \<Rightarrow> ports option" where
  "load_registry h site d =
     (case content d of
        NoFile \<Rightarrow> Some []
      | Unreadable \<Rightarrow> Some []
      | Document registry \<Rightarrow> if read_raises h site then Some [] else registry)"

text \<open>The expression \<open>registry.get("allocated_ports", {})\<close>.\<close>

definition allocated_ports :: "ports option \<Rightarrow> ports" where
  "allocated_ports registry = (case registry of None \<Rightarrow> [] | Some ps \<Rightarrow> ps)"

text \<open>
  \<open>_save_registry\<close>, called with a registry whose \<open>allocated_ports\<close> entry has just been
  assigned: returns whether the write succeeded.
\<close>

definition save_registry :: "host \<Rightarrow> ports \<Rightarrow> disk \<Rightarrow> bool \<times> disk" where
  "save_registry h ps d =
     (case write_result h of
        Written \<Rightarrow> (True, d\<lparr>content := Document (Some ps), writes := writes d + 1\<rparr>)
      | OpenFailed \<Rightarrow> (False, d\<lparr>writes := writes d + 1\<rparr>)
      | DumpFailed \<Rightarrow> (False, d\<lparr>content := Unreadable, writes := writes d + 1\<rparr>))"

text \<open>\<open>_is_port_available\<close>\<close>

definition is_port_available :: "host \<Rightarrow> int \<Rightarrow> bool" where
  "is_port_available h port =
     (case connect_ex h port of
        Returned result \<Rightarrow> result \<noteq> 0
      | Raised \<Rightarrow> False)"

text \<open>
  \<open>_check_port_range_available\<close>: the loop returns \<open>False\<close> at the first test port that
  is not available and \<open>True\<close> after the last one.
\<close>

definition check_port_range_available :: "host \<Rightarrow> int \<Rightarrow> bool" where
  "check_port_range_available h port_base =
     list_all (is_port_available h)
       [port_base + 10, port_base + 20, port_base + 30, port_base + 40]"

text \<open>
  \<open>_find_next_port_base\<close>: the first loop folds \<open>max\<close> over the registry's values,
  starting from \<open>MCP_BASE_PORT\<close>; the second returns the first of ten candidates whose
  range is available, and the code after it returns \<open>next_base\<close>.
\<close>

definition find_next_port_base :: "host \<Rightarrow> disk \<Rightarrow> int" where
  "find_next_port_base h d =
     (let allocated = allocated_ports (load_registry h In_find_next_port_base d);
          highest_port = foldl max MCP_BASE_PORT (map snd allocated);
          next_base = highest_port + MCP_PORT_RANGE
      in case List.find (\<lambda>i. check_port_range_available h (next_base + int i * MCP_PORT_RANGE))
                [0..<10] of
           Some i \<Rightarrow> next_base + int i * MCP_PORT_RANGE
         | None \<Rightarrow> next_base)"

text \<open>\<open>allocate_port_range\<close>; the result of \<open>_save_registry\<close> is not looked at.\<close>

definition allocate_port_range :: "host \<Rightarrow> string \<Rightarrow> disk \<Rightarrow> int \<times> disk" where
  "allocate_port_range h instance_name d =
     (let allocated = allocated_ports (load_registry h In_allocate_port_range d)
      in case map_of allocated instance_name of
           Some port \<Rightarrow> (port, d)
         | None \<Rightarrow>
             (let base_port = find_next_port_base h d
              in (base_port,
                  snd (save_registry h (AList.update instance_name base_port allocated) d))))"

text \<open>\<open>get_port_base\<close>\<close>

definition get_port_base :: "host \<Rightarrow> string \<Rightarrow> disk \<Rightarrow> int \<times> disk" where
  "get_port_base h instance_name d =
     (let allocated = allocated_ports (load_registry h In_get_port_base d)
      in case map_of allocated instance_name of
           Some port \<Rightarrow> (port, d)
         | None \<Rightarrow> allocate_port_range h instance_name d)"

text \<open>The table \<open>offsets\<close> of \<open>get_tool_port\<close>.\<close>

definition offsets :: "(string \<times> int) list" where
  "offsets =
     [(''filesystem'', 10),
      (''sequential-thinking'', 20),
      (''memory'', 30),
      (''desktop-commander'', 40),
      (''repl'', 50),
      (''@executeautomation-playwright-mcp-server'', 60)]"

definition get_tool_port :: "host \<Rightarrow> string \<Rightarrow> string \<Rightarrow> disk \<Rightarrow> int \<times> disk" where
  "get_tool_port h instance_name tool_name d =
     (let (base_port, d') = get_port_base h instance_name d;
          offset = (case map_of offsets tool_name of Some n \<Rightarrow> n | None \<Rightarrow> 90)
      in (base_port + offset, d'))"

text \<open>\<open>release_port_range\<close>\<close>

definition release_port_range :: "host \<Rightarrow> string \<Rightarrow> disk \<Rightarrow> bool \<times> disk" where
  "release_port_range h instance_name d =
     (let allocated = allocated_ports (load_registry h In_release_port_range d)
      in case map_of allocated instance_name of
           Some port \<Rightarrow> (True, snd (save_registry h (AList.delete instance_name allocated) d))
         | None \<Rightarrow> (False, d))"

text \<open>
  A sequence of \<open>allocate_port_range\<close> calls, each with the host's behaviour during that
  call; the results are returned in call order.
\<close>

fun allocate_all :: "disk \<Rightarrow> (host \<times> string) list \<Rightarrow> int list \<times> disk" where
  "allocate_all d [] = ([], d)"
| "allocate_all d ((h, instance_name) # calls) =
     (let (port, d') = allocate_port_range h instance_name d;
          (ports, d'') = allocate_all d' calls
      in (port # ports, d''))"

text \<open>
  The mapping that the registry file holds: empty when the file is missing, is not
  loadable or has no \<open>allocated_ports\<close> entry.
\<close>

definition stored_ports :: "disk \<Rightarrow> ports" where
  "stored_ports d =
     (case content d of
        NoFile \<Rightarrow> []
      | Unreadable \<Rightarrow> []
      | Document registry \<Rightarrow> allocated_ports registry)"

text \<open>
  During a call of \<open>allocate_port_range\<close> the two reads of the registry (its own and that
  of \<open>_find_next_port_base\<close>) and the write succeed.
\<close>

definition io_succeeds :: "host \<Rightarrow> bool" where
  "io_succeeds h =
     (write_result h = Written
      \<and> \<not> read_raises h In_allocate_port_range \<and> \<not> read_raises h In_find_next_port_base)"

text \<open>
  The registry invariant of the data model: the base ports of two different instances
  are at least \<open>MCP_PORT_RANGE\<close> apart.
\<close>

definition ranges_apart :: "ports \<Rightarrow> bool" where
  "ranges_apart ps =
     (\<forall>(a, p) \<in> set ps. \<forall>(b, q) \<in> set ps. a \<noteq> b \<longrightarrow> MCP_PORT_RANGE \<le> \<bar>p - q\<bar>)"

text \<open>
  Hosts and disks used as concrete inputs. On \<open>quiet_host\<close> every connect is refused, on
  \<open>busy_host\<close> every connect succeeds, on \<open>broken_host\<close> every probe raises; on
  \<open>readonly_host\<close> the registry cannot be opened for writing; on \<open>taken_host\<close> a server
  listens on port 9110; on \<open>blind_host\<close> the registry cannot be read.
\<close>

definition fresh_disk :: disk where
  "fresh_disk = \<lparr>content = Document (Some []), writes = 0\<rparr>"

definition quiet_host :: host where
  "quiet_host =
     \<lparr>connect_ex = (\<lambda>port. Returned 111), write_result = Written,
      read_raises = (\<lambda>site. False)\<rparr>"

definition busy_host :: host where
  "busy_host =
     \<lparr>connect_ex = (\<lambda>port. Returned 0), write_result = Written,
      read_raises = (\<lambda>site. False)\<rparr>"

definition broken_host :: host where
  "broken_host =
     \<lparr>connect_ex = (\<lambda>port. Raised), write_result = Written,
      read_raises = (\<lambda>site. False)\<rparr>"

definition readonly_host :: host where
  "readonly_host =
     \<lparr>connect_ex = (\<lambda>port. Returned 111), write_result = OpenFailed,
      read_raises = (\<lambda>site. False)\<rparr>"

definition taken_host :: host where
  "taken_host =
     \<lparr>connect_ex = (\<lambda>port. if port = 9110 then Returned 0 else Returned 111),
      write_result = Written, read_raises = (\<lambda>site. False)\<rparr>"

definition blind_host :: host where
  "blind_host =
     \<lparr>connect_ex = (\<lambda>port. Returned 111), write_result = Written,
      read_raises = (\<lambda>site. True)\<rparr>"

definition mixed_host :: host where
  "mixed_host =
     \<lparr>connect_ex = (\<lambda>port. if port = 9110 then Returned 0
                           else if port = 9120 then Returned 111 else Raised),
      write_result = Written, read_raises = (\<lambda>site. False)\<rparr>"

definition three_calls :: "(host \<times> string) list" where
  "three_calls = [(quiet_host, ''alpha''), (busy_host, ''beta''), (quiet_host, ''gamma'')]"

definition readonly_calls :: "(host \<times> string) list" where
  "readonly_calls = [(readonly_host, ''alpha''), (readonly_host, ''beta'')]"

definition blind_calls :: "(host \<times> string) list" where
  "blind_calls = [(quiet_host, ''alpha''), (blind_host, ''beta'')]"

definition overlapping_disk :: disk where
  "overlapping_disk =
     \<lparr>content = Document (Some [(''alpha'', 9100), (''beta'', 9150)]), writes = 0\<rparr>"

section \<open>Process supervision: core/server_manager.py and core/registry.py\<close>

subsection \<open>Strings and numbers of the Python library\<close>

text \<open>
  A Python \<open>str\<close> is a sequence of Unicode code points. The names and the configuration
  values are of type \<open>string\<close>, where a character stands for the code point of its
  number (below 256); they are compared, copied and, for the port, parsed. The text that a
  child writes is a list of code points of any size.
\<close>

type_synonym unicode = "nat list"




text \<open>
  \<open>int(s)\<close> on a string; \<open>None\<close> stands for \<open>ValueError\<close>. Around the number \<open>int\<close>
  skips the ASCII whitespace of C (0x09 to 0x0D and the space) and the whitespace beyond
  ASCII (0x85 and 0xA0 below 256), but not 0x1C to 0x1F. The number is an optional sign
  and decimal digits, where single underscores may separate digits, and has at most 4300
  digits (the default limit of CPython for the conversion of a string).
\<close>

definition is_int_space :: "char \<Rightarrow> bool" where
  "is_int_space c = (of_char c \<in> set [9, 10, 11, 12, 13, 32, 133, 160 :: nat])"

definition is_digit :: "char \<Rightarrow> bool" where
  "is_digit c = (c \<in> set ''0123456789'')"

definition MAX_STR_DIGITS :: nat where
  "MAX_STR_DIGITS = 4300"

fun digits_value :: "nat \<Rightarrow> string \<Rightarrow> nat option" where
  "digits_value acc [] = Some acc"
| "digits_value acc (c # cs) =
     (if is_digit c then digits_value (10 * acc + (of_char c - 48)) cs
      else if c = CHR ''_'' \<and> (case cs of [] \<Rightarrow> False | c' # _ \<Rightarrow> is_digit c')
        then digits_value acc cs
      else None)"

definition unsigned_value :: "string \<Rightarrow> nat option" where
  "unsigned_value s =
     (case s of
        [] \<Rightarrow> None
      | c # _ \<Rightarrow>
          if is_digit c \<and> length (filter is_digit s) \<le> MAX_STR_DIGITS
          then digits_value 0 s else None)"

definition py_int :: "string \<Rightarrow> int option" where
  "py_int s =
     (case rev (dropWhile is_int_space (rev (dropWhile is_int_space s))) of
        [] \<Rightarrow> None
      | c # cs \<Rightarrow>
          if c = CHR ''-'' then map_option (\<lambda>n. - int n) (unsigned_value cs)
          else if c = CHR ''+'' then map_option int (unsigned_value cs)
          else map_option int (unsigned_value (c # cs)))"

text \<open>\<open>str(n)\<close> on an integer: its decimal digits, after a minus sign when negative.\<close>

definition digit_char :: "nat \<Rightarrow> char" where
  "digit_char n = ''0123456789'' ! n"

fun str_nat :: "nat \<Rightarrow> string" where
  "str_nat n =
     (if n < 10 then [digit_char n]
      else str_nat (n div 10) @ [digit_char (n mod 10)])"

declare str_nat.simps [simp del]

definition str_int :: "int \<Rightarrow> string" where
  "str_int i = (if i < 0 then CHR ''-'' # str_nat (nat (- i)) else str_nat (nat i))"

text \<open>\<open>list.index(x)\<close>: the position of the first occurrence, \<open>None\<close> for \<open>ValueError\<close>.\<close>

fun list_index :: "'a list \<Rightarrow> 'a \<Rightarrow> nat option" where
  "list_index [] x = None"
| "list_index (y # ys) x = (if y = x then Some 0 else map_option Suc (list_index ys x))"

subsection \<open>Configuration documents\<close>

text \<open>
  One entry of \<open>mcpServers\<close>. Every key is read with \<open>dict.get\<close> and a default, so each
  field is optional.
\<close>

record server_config =
  command :: "string option"
  args :: "string list option"
  env :: "(string \<times> string) list option"
  autoStart :: "bool option"

text \<open>
  The document \<open>claude_desktop_config.json\<close> of an instance, represented by its
  \<open>mcpServers\<close> entry: \<open>None\<close> when the document has no such key (as the empty document
  has). \<open>sandboxes\<close> gives the file of every instance.
\<close>

type_synonym mcp_config = "(string \<times> server_config) list option"

type_synonym sandboxes = "string \<Rightarrow> mcp_config json_file"

text \<open>\<open>InstanceRegistry.get_instance_mcp_config\<close>\<close>

definition get_instance_mcp_config :: "sandboxes \<Rightarrow> string \<Rightarrow> mcp_config option" where
  "get_instance_mcp_config sb instance_name =
     (case sb instance_name of
        NoFile \<Rightarrow> None
      | Unreadable \<Rightarrow> None
      | Document config \<Rightarrow> Some config)"

subsection \<open>Processes and the supervisor's state\<close>

text \<open>
  What has been done to a child process through its \<open>Popen\<close> handle: \<open>terminate()\<close>,
  \<open>kill()\<close> and \<open>wait(timeout=n)\<close>.
\<close>

datatype action = Terminate | Kill | Wait nat

text \<open>
  A \<open>Popen\<close> handle together with the state of the child it stands for: \<open>alive\<close> is
  \<open>poll() is None\<close>. The attribute \<open>stdout\<close> of the handle is a buffered text stream
  on the read end of a pipe (\<open>text=True\<close>), so the output that has not been returned yet
  is in two places: \<open>pipe\<close> holds the lines that the child has written and that are
  still in the pipe of the operating system, \<open>buffered\<close> the lines that the stream has
  taken out of the pipe and keeps in its buffer, both oldest first and each line as
  \<open>readline()\<close> returns it (with its line terminator). The child writes whole lines and
  keeps its end of the pipe open while it lives, and one read of the stream takes all that
  is in the pipe (the stream asks for 8192 bytes at a time). Each handle is held in one
  place only, the table \<open>servers\<close>, so the table stores it by value.
\<close>

record process =
  pid :: nat
  cmdline :: "string list"
  environ :: "(string \<times> string) list"
  alive :: bool
  pipe :: "unicode list"
  buffered :: "unicode list"
  history :: "action list"

text \<open>The Qt signals \<open>server_started\<close>, \<open>server_stopped\<close> and \<open>server_output\<close>.\<close>

datatype signal =
  Server_started string
| Server_stopped string
| Server_output string unicode

text \<open>
  The attributes \<open>servers\<close> and \<open>server_logs\<close> of \<open>ServerManager\<close>, both keyed by
  instance name and then by server name, and the signals emitted so far.
\<close>

record supervisor =
  servers :: "(string \<times> (string \<times> process) list) list"
  server_logs :: "(string \<times> (string \<times> unicode list) list) list"
  emitted :: "signal list"

text \<open>
  What the operating system does during a call of \<open>start_server\<close>: \<open>os.environ\<close>, and
  whether \<open>subprocess.Popen\<close> of a command line in an environment gives a child (its
  process id) or raises.
\<close>

record os =
  os_environ :: "(string \<times> string) list"
  popen :: "string list \<Rightarrow> (string \<times> string) list \<Rightarrow> nat option"

text \<open>
  How a child reacts during a call of \<open>stop_server\<close>: whether \<open>terminate()\<close> and
  \<open>kill()\<close> raise, and whether each \<open>wait\<close> returns or raises \<open>TimeoutExpired\<close>.
\<close>

datatype wait_result = Exited | TimeoutExpired

record reaction =
  terminate_raises :: bool
  wait_after_terminate :: wait_result
  kill_raises :: bool
  wait_after_kill :: wait_result

subsection \<open>Operations of \<open>ServerManager\<close>\<close>

text \<open>\<open>get_port_from_args\<close>\<close>

definition get_port_from_args :: "string list \<Rightarrow> int" where
  "get_port_from_args arg_list =
     (case list_index arg_list ''--port'' of
        None \<Rightarrow> 0
      | Some i \<Rightarrow>
          (let port_index = i + 1
           in if port_index < length arg_list then
                (case py_int (arg_list ! port_index) of Some port \<Rightarrow> port | None \<Rightarrow> 0)
              else 0))"

text \<open>The dictionary \<open>self.servers[instance_name]\<close>, where the instance is a key.\<close>

definition instance_servers :: "supervisor \<Rightarrow> string \<Rightarrow> (string \<times> process) list" where
  "instance_servers s instance_name =
     (case map_of (servers s) instance_name of Some m \<Rightarrow> m | None \<Rightarrow> [])"

text \<open>
  The command line and the environment that \<open>start_server\<close> builds from a configuration
  entry: \<open>[command] + args\<close>, and \<open>os.environ\<close> overridden by the entry's \<open>env\<close> and then
  by the three variables that carry the port and the instance name.
\<close>

definition full_command :: "server_config \<Rightarrow> string list" where
  "full_command config =
     (let cmd = (case command config of Some c \<Rightarrow> c | None \<Rightarrow> ''npx'');
          arg_list = (case args config of Some a \<Rightarrow> a | None \<Rightarrow> [])
      in cmd # arg_list)"

definition child_env :: "os \<Rightarrow> string \<Rightarrow> server_config \<Rightarrow> (string \<times> string) list" where
  "child_env sys instance_name config =
     (let arg_list = (case args config of Some a \<Rightarrow> a | None \<Rightarrow> []);
          port = get_port_from_args arg_list;
          env1 = foldl (\<lambda>e (key, val). AList.update key val e) (os_environ sys)
                   (case env config of Some e \<Rightarrow> e | None \<Rightarrow> []);
          env2 = AList.update ''MCP_PORT'' (str_int port) env1;
          env3 = AList.update ''MCP_SERVER_PORT'' (str_int port) env2
      in AList.update ''CLAUDE_INSTANCE'' instance_name env3)"

text \<open>
  \<open>start_server\<close> from the configuration lookup on (lines 51 to 96). A \<open>KeyError\<close> of
  \<open>self.server_logs[instance_name]\<close> is raised inside the \<open>try\<close> block, after the handle
  has been stored, and makes the call return \<open>False\<close>.
\<close>

definition launch_server ::
  "os \<Rightarrow> sandboxes \<Rightarrow> string \<Rightarrow> string \<Rightarrow> supervisor \<Rightarrow> bool \<times> supervisor" where
  "launch_server sys sb instance_name server_name s =
     (case get_instance_mcp_config sb instance_name of
        None \<Rightarrow> (False, s)
      | Some None \<Rightarrow> (False, s)
      | Some (Some mcpServers) \<Rightarrow>
          (case map_of mcpServers server_name of
             None \<Rightarrow> (False, s)
           | Some config \<Rightarrow>
               (case popen sys (full_command config) (child_env sys instance_name config) of
                  None \<Rightarrow> (False, s)
                | Some child \<Rightarrow>
                    (let proc = \<lparr>pid = child, cmdline = full_command config,
                                 environ = child_env sys instance_name config,
                                 alive = True, pipe = [], buffered = [], history = []\<rparr>;
                         s1 = s\<lparr>servers :=
                                 AList.update instance_name
                                   (AList.update server_name proc
                                      (instance_servers s instance_name))
                                   (servers s)\<rparr>
                     in case map_of (server_logs s1) instance_name of
                          None \<Rightarrow> (False, s1)
                        | Some logs \<Rightarrow>
                            (True,
                             s1\<lparr>server_logs :=
                                   AList.update instance_name
                                     (AList.update server_name [] logs) (server_logs s1),
                                 emitted := emitted s1 @ [Server_started server_name]\<rparr>)))))"

text \<open>\<open>start_server\<close>\<close>

definition start_server ::
  "os \<Rightarrow> sandboxes \<Rightarrow> string \<Rightarrow> string \<Rightarrow> supervisor \<Rightarrow> bool \<times> supervisor" where
  "start_server sys sb instance_name server_name s0 =
     (let s = (if map_of (servers s0) instance_name = None
               then s0\<lparr>servers := AList.update instance_name [] (servers s0),
                       server_logs := AList.update instance_name [] (server_logs s0)\<rparr>
               else s0)
      in case map_of (instance_servers s instance_name) server_name of
           Some proc \<Rightarrow>
             if alive proc then (True, s)
             else launch_server sys sb instance_name server_name s
         | None \<Rightarrow> launch_server sys sb instance_name server_name s)"

text \<open>
  The \<open>try\<close> block of \<open>stop_server\<close> up to the last \<open>wait\<close>: whether it completed
  without an exception, and the child afterwards.
\<close>

definition terminate_and_wait :: "reaction \<Rightarrow> process \<Rightarrow> bool \<times> process" where
  "terminate_and_wait r proc =
     (if terminate_raises r then (False, proc)
      else
        (let p1 = proc\<lparr>history := history proc @ [Terminate, Wait 3]\<rparr>
         in case wait_after_terminate r of
              Exited \<Rightarrow> (True, p1\<lparr>alive := False\<rparr>)
            | TimeoutExpired \<Rightarrow>
                if kill_raises r then (False, p1)
                else
                  (let p2 = p1\<lparr>history := history p1 @ [Kill, Wait 1]\<rparr>
                   in case wait_after_kill r of
                        Exited \<Rightarrow> (True, p2\<lparr>alive := False\<rparr>)
                      | TimeoutExpired \<Rightarrow> (False, p2))))"

text \<open>\<open>stop_server\<close>\<close>

definition stop_server ::
  "reaction \<Rightarrow> string \<Rightarrow> string \<Rightarrow> supervisor \<Rightarrow> bool \<times> supervisor" where
  "stop_server r instance_name server_name s =
     (case map_of (servers s) instance_name of
        None \<Rightarrow> (False, s)
      | Some m \<Rightarrow>
          (case map_of m server_name of
             None \<Rightarrow> (False, s)
           | Some proc \<Rightarrow>
               if alive proc then
                 (case terminate_and_wait r proc of
                    (True, proc') \<Rightarrow>
                      (True,
                       s\<lparr>servers :=
                           AList.update instance_name (AList.update server_name proc' m)
                             (servers s),
                         emitted := emitted s @ [Server_stopped server_name]\<rparr>)
                  | (False, proc') \<Rightarrow>
                      (False,
                       s\<lparr>servers :=
                           AList.update instance_name (AList.update server_name proc' m)
                             (servers s)\<rparr>))
               else
                 (True,
                  s\<lparr>servers :=
                      AList.update instance_name (AList.delete server_name m) (servers s)\<rparr>)))"

text \<open>
  The loop of \<open>start_all_servers\<close> over the entries of \<open>mcpServers\<close>. Python's \<open>and\<close>
  evaluates its right operand only when the left one is true.
\<close>

fun start_each ::
  "os \<Rightarrow> sandboxes \<Rightarrow> string \<Rightarrow> (string \<times> server_config) list \<Rightarrow> bool \<Rightarrow> supervisor
   \<Rightarrow> bool \<times> supervisor" where
  "start_each sys sb instance_name [] success s = (success, s)"
| "start_each sys sb instance_name ((server_name, config) # rest) success s =
     (if (case autoStart config of Some b \<Rightarrow> b | None \<Rightarrow> False) then
        (if success then
           (let (started, s') = start_server sys sb instance_name server_name s
            in start_each sys sb instance_name rest started s')
         else start_each sys sb instance_name rest False s)
      else start_each sys sb instance_name rest success s)"

text \<open>\<open>start_all_servers\<close>\<close>

definition start_all_servers ::
  "os \<Rightarrow> sandboxes \<Rightarrow> string \<Rightarrow> supervisor \<Rightarrow> bool \<times> supervisor" where
  "start_all_servers sys sb instance_name s =
     (case get_instance_mcp_config sb instance_name of
        None \<Rightarrow> (False, s)
      | Some None \<Rightarrow> (False, s)
      | Some (Some mcpServers) \<Rightarrow> start_each sys sb instance_name mcpServers True s)"

text \<open>\<open>is_server_running\<close>\<close>

definition is_server_running :: "supervisor \<Rightarrow> string \<Rightarrow> string \<Rightarrow> bool" where
  "is_server_running s instance_name server_name =
     (case map_of (servers s) instance_name of
        None \<Rightarrow> False
      | Some m \<Rightarrow> (case map_of m server_name of None \<Rightarrow> False | Some proc \<Rightarrow> alive proc))"












text \<open>The handle tracked for a pair, if any.\<close>

definition tracked :: "supervisor \<Rightarrow> string \<Rightarrow> string \<Rightarrow> process option" where
  "tracked s instance_name server_name =
     (case map_of (servers s) instance_name of
        None \<Rightarrow> None
      | Some m \<Rightarrow> map_of m server_name)"



text \<open>
  The entry of a server in the configuration document of an instance: \<open>None\<close> when the
  document is absent or unreadable, has no \<open>mcpServers\<close>, or has no entry of that name.
\<close>

definition configuration_entry :: "sandboxes \<Rightarrow> string \<Rightarrow> string \<Rightarrow> server_config option" where
  "configuration_entry sb instance_name server_name =
     (case sb instance_name of
        Document (Some mcpServers) \<Rightarrow> map_of mcpServers server_name
      | _ \<Rightarrow> None)"

subsection \<open>Concrete inputs\<close>

text \<open>
  A host on which \<open>npx\<close> can be launched and nothing else; two configuration entries, the
  first with a command that cannot be launched; an instance \<open>alpha\<close> configured with both;
  no configuration at all; the supervisor as \<open>__init__\<close> leaves it; a child that exits on
  \<open>terminate()\<close>.
\<close>

definition node_os :: os where
  "node_os =
     \<lparr>os_environ = [(''PATH'', ''/usr/bin'')],
      popen = (\<lambda>cmd e. case cmd of
                         [] \<Rightarrow> None
                       | c # _ \<Rightarrow> if c = ''npx'' then Some 4242 else None)\<rparr>"

definition memory_config :: server_config where
  "memory_config =
     \<lparr>command = Some ''npx'',
      args = Some [''-y'', ''@modelcontextprotocol/memory'', ''--port'', ''0''],
      env = None,
      autoStart = Some True\<rparr>"

definition broken_config :: server_config where
  "broken_config =
     \<lparr>command = Some ''missing-binary'', args = Some [], env = None, autoStart = Some True\<rparr>"

definition alpha_sandbox :: sandboxes where
  "alpha_sandbox =
     (\<lambda>name. if name = ''alpha''
              then Document (Some [(''filesystem'', broken_config), (''memory'', memory_config)])
              else NoFile)"

definition no_sandboxes :: sandboxes where
  "no_sandboxes = (\<lambda>name. NoFile)"

definition idle :: supervisor where
  "idle = \<lparr>servers = [], server_logs = [], emitted = []\<rparr>"

definition graceful :: reaction where
  "graceful =
     \<lparr>terminate_raises = False, wait_after_terminate = Exited,
      kill_raises = False, wait_after_kill = Exited\<rparr>"

text \<open>
  The child and the supervisor after \<open>start_server("alpha", "memory")\<close> on the idle
  supervisor; two lines that the child writes one after the other, and three lines that
  it writes at once.
\<close>

definition memory_process :: process where
  "memory_process =
     \<lparr>pid = 4242,
      cmdline = [''npx'', ''-y'', ''@modelcontextprotocol/memory'', ''--port'', ''0''],
      environ = [(''PATH'', ''/usr/bin''), (''MCP_PORT'', ''0''),
                 (''MCP_SERVER_PORT'', ''0''), (''CLAUDE_INSTANCE'', ''alpha'')],
      alive = True, pipe = [], buffered = [], history = []\<rparr>"

definition memory_started :: supervisor where
  "memory_started =
     \<lparr>servers = [(''alpha'', [(''memory'', memory_process)])],
      server_logs = [(''alpha'', [(''memory'', [])])],
      emitted = [Server_started ''memory'']\<rparr>"



section \<open>Properties of the port allocator\<close>

lemma foldl_max_ge_start: "(b::int) \<le> foldl max b xs"
proof (induction xs arbitrary: b)
  case Nil
  show ?case by simp
next
  case (Cons x xs)
  have "b \<le> max b x" by simp
  also have "max b x \<le> foldl max (max b x) xs" by (rule Cons.IH)
  finally show ?case by simp
qed

lemma foldl_max_ge_elem: "(x::int) \<in> set xs \<Longrightarrow> x \<le> foldl max b xs"
proof (induction xs arbitrary: b)
  case Nil
  then show ?case by simp
next
  case (Cons y ys)
  show ?case
  proof (cases "x = y")
    case True
    have "y \<le> max b y" by simp
    also have "max b y \<le> foldl max (max b y) ys" by (rule foldl_max_ge_start)
    finally show ?thesis using True by simp
  next
    case False
    with Cons.prems have "x \<in> set ys" by simp
    then show ?thesis using Cons.IH by simp
  qed
qed

lemma foldl_max_eq_Max: "foldl max (b::int) xs = Max (insert b (set xs))"
proof (induction xs arbitrary: b)
  case Nil
  show ?case by simp
next
  case (Cons x xs)
  have "foldl max b (x # xs) = Max (insert (max b x) (set xs))"
    using Cons.IH by simp
  also have "\<dots> = Max (insert b (insert x (set xs)))"
    by (cases "set xs = {}") (simp_all add: max.assoc max.commute max.left_commute)
  finally show ?case by simp
qed

text \<open>
  C7. When none of the ten candidate bases passes the availability probe, the allocation
  does not fail: it returns the first candidate, the maximum of the existing bases and
  \<open>MCP_BASE_PORT\<close> plus \<open>MCP_PORT_RANGE\<close>. The existing bases are those of the registry
  as \<open>_find_next_port_base\<close> loads it.
\<close>

theorem fallback_returns_first_candidate:
  assumes "first = Max (insert MCP_BASE_PORT
                     (snd ` set (allocated_ports (load_registry h In_find_next_port_base d))))
                   + MCP_PORT_RANGE"
    and "\<forall>i<10. \<not> check_port_range_available h (first + int i * MCP_PORT_RANGE)"
    and "map_of (allocated_ports (load_registry h In_allocate_port_range d)) instance_name = None"
  shows "find_next_port_base h d = first
         \<and> fst (allocate_port_range h instance_name d) = first"
proof -
  let ?ps = "allocated_ports (load_registry h In_find_next_port_base d)"
  have first: "first = foldl max MCP_BASE_PORT (map snd ?ps) + MCP_PORT_RANGE"
    using assms(1) by (simp add: foldl_max_eq_Max)
  have "List.find (\<lambda>i. check_port_range_available h (first + int i * MCP_PORT_RANGE)) [0..<10]
        = None"
    using assms(2) by (simp add: find_None_iff)
  then have base: "find_next_port_base h d = first"
    by (simp add: find_next_port_base_def Let_def first)
  moreover have "fst (allocate_port_range h instance_name d) = find_next_port_base h d"
    using assms(3) by (simp add: allocate_port_range_def Let_def)
  ultimately show ?thesis by simp
qed

theorem fallback_returns_first_candidate_witness:
  "find_next_port_base busy_host \<lparr>content = Document (Some [(''a'', 9300)]), writes = 0\<rparr> = 9400
   \<and> fst (allocate_port_range busy_host ''b''
            \<lparr>content = Document (Some [(''a'', 9300)]), writes = 0\<rparr>) = 9400"
  using fallback_returns_first_candidate
          [of 9400 busy_host "\<lparr>content = Document (Some [(''a'', 9300)]), writes = 0\<rparr>" "''b''"]
  by (simp add: load_registry_def allocated_ports_def MCP_BASE_PORT_def MCP_PORT_RANGE_def
        check_port_range_available_def is_port_available_def busy_host_def)

lemma loaded_of_stored:
  "map_of (stored_ports d) instance_name = None
   \<Longrightarrow> map_of (allocated_ports (load_registry h site d)) instance_name = None"
  by (simp add: stored_ports_def load_registry_def allocated_ports_def
        split: json_file.splits)

lemma loaded_of_empty:
  "stored_ports d = [] \<Longrightarrow> allocated_ports (load_registry h site d) = []"
  by (simp add: stored_ports_def load_registry_def allocated_ports_def
        split: json_file.splits)

lemma loaded_when_read:
  "\<not> read_raises h site \<Longrightarrow> allocated_ports (load_registry h site d) = stored_ports d"
  by (simp add: stored_ports_def load_registry_def allocated_ports_def
        split: json_file.splits)

lemma stored_after_save:
  "write_result h = Written \<Longrightarrow> stored_ports (snd (save_registry h ps d)) = ps"
  by (simp add: save_registry_def stored_ports_def allocated_ports_def)

text \<open>
  C10. For an instance name that is not in the port registry, \<open>release_port_range\<close>
  returns false and leaves the registry file as it is: neither its content nor the count
  of writes changes, whatever a read or a write does on the host.
\<close>

theorem release_unknown_instance:
  assumes "map_of (stored_ports d) instance_name = None"
  shows "release_port_range h instance_name d = (False, d)"
  using loaded_of_stored [OF assms] by (simp add: release_port_range_def Let_def)

theorem release_unknown_instance_witness:
  "release_port_range busy_host ''beta''
     \<lparr>content = Document (Some [(''alpha'', 9100)]), writes = 3\<rparr>
   = (False, \<lparr>content = Document (Some [(''alpha'', 9100)]), writes = 3\<rparr>)"
  using release_unknown_instance
          [of "\<lparr>content = Document (Some [(''alpha'', 9100)]), writes = 3\<rparr>" "''beta''" busy_host]
  by (simp add: stored_ports_def allocated_ports_def)

text \<open>
  C5, as the claim states it, fails: on the empty registry with every probed port free,
  the first allocation gives base port 9100, not 9000, and the port of the tool
  \<open>memory\<close> is 9130, not 9030.
\<close>

theorem first_allocation_counterexample:
  "fst (allocate_port_range quiet_host ''alpha'' fresh_disk) = 9100
   \<and> fst (get_tool_port quiet_host ''alpha'' ''memory'' fresh_disk) = 9130"
  by (simp add: get_tool_port_def get_port_base_def allocate_port_range_def
        find_next_port_base_def check_port_range_available_def is_port_available_def
        load_registry_def allocated_ports_def offsets_def quiet_host_def fresh_disk_def
        MCP_BASE_PORT_def MCP_PORT_RANGE_def Let_def upt_rec)

text \<open>
  C5, amended. When the port registry is empty and the first candidate
  \<open>MCP_BASE_PORT + MCP_PORT_RANGE\<close> passes the probe, the first allocation assigns base
  port 9100, so \<open>get_tool_port\<close> of the tool \<open>memory\<close> on an instance with no registry
  entry returns 9130.
\<close>

theorem first_allocation:
  assumes "stored_ports d = []"
    and "check_port_range_available h (MCP_BASE_PORT + MCP_PORT_RANGE)"
  shows "fst (allocate_port_range h instance_name d) = 9100
         \<and> fst (get_tool_port h instance_name ''memory'' d) = 9130"
proof -
  note empty = loaded_of_empty [OF assms(1)]
  have "List.find (\<lambda>i. check_port_range_available h
                      (MCP_BASE_PORT + MCP_PORT_RANGE + int i * MCP_PORT_RANGE)) [0..<10]
        = Some 0"
    using assms(2) by (simp add: upt_rec)
  then have "find_next_port_base h d = 9100"
    by (simp add: find_next_port_base_def empty Let_def MCP_BASE_PORT_def MCP_PORT_RANGE_def)
  then have alloc: "fst (allocate_port_range h instance_name d) = 9100"
    by (simp add: allocate_port_range_def empty Let_def)
  then have "fst (get_tool_port h instance_name ''memory'' d) = 9130"
    by (simp add: get_tool_port_def get_port_base_def empty offsets_def Let_def split_beta)
  with alloc show ?thesis by simp
qed

theorem first_allocation_witness:
  "fst (allocate_port_range quiet_host ''alpha'' \<lparr>content = NoFile, writes = 0\<rparr>) = 9100
   \<and> fst (get_tool_port quiet_host ''alpha'' ''memory'' \<lparr>content = NoFile, writes = 0\<rparr>)
     = 9130"
  using first_allocation [of "\<lparr>content = NoFile, writes = 0\<rparr>" quiet_host "''alpha''"]
  by (simp add: stored_ports_def check_port_range_available_def
        is_port_available_def quiet_host_def MCP_BASE_PORT_def MCP_PORT_RANGE_def)

text \<open>
  C6, as the claim states it, fails: when the probe raises instead of returning an error
  code, the port is classified as in use, not as available.
\<close>

theorem probe_error_counterexample:
  "connect_ex broken_host 9110 = Raised \<and> is_port_available broken_host 9110 = False"
  by (simp add: is_port_available_def broken_host_def)

text \<open>
  C6, amended. Each of the three cases holds by itself, on every host and for every port:
  a connect that succeeds (\<open>connect_ex\<close> returns 0) classifies the port as in use; a
  connect that fails with an error code (\<open>connect_ex\<close> returns a non-zero value, as it
  does after a refusal or a timeout) classifies the port as available; a probe that raises
  classifies the port as in use.
\<close>

theorem probe_classification:
  "(connect_ex h p = Returned 0 \<longrightarrow> \<not> is_port_available h p)
   \<and> (connect_ex h' q = Returned errno \<longrightarrow> errno \<noteq> 0 \<longrightarrow> is_port_available h' q)
   \<and> (connect_ex h'' r = Raised \<longrightarrow> \<not> is_port_available h'' r)"
  by (simp add: is_port_available_def)

theorem probe_classification_witness:
  "\<not> is_port_available busy_host 9110 \<and> is_port_available quiet_host 9120
   \<and> \<not> is_port_available broken_host 9130"
  using probe_classification [of busy_host 9110 quiet_host 9120 111 broken_host 9130]
  by (simp add: busy_host_def quiet_host_def broken_host_def)

text \<open>The probe is decided by the result of the connect alone.\<close>

lemma probe_available_iff:
  "is_port_available h p \<longleftrightarrow> (\<exists>errno. errno \<noteq> 0 \<and> connect_ex h p = Returned errno)"
  by (cases "connect_ex h p") (simp_all add: is_port_available_def)

text \<open>
  C2, as the claim states it, fails: the first call for \<open>alpha\<close> returns 9100 but cannot
  write the registry; before the second call a server starts to listen on port 9110, and
  the second call returns 9200 and writes the registry.
\<close>

theorem allocate_twice_counterexample:
  "allocate_port_range readonly_host ''alpha'' fresh_disk
   = (9100, \<lparr>content = Document (Some []), writes = 1\<rparr>)
   \<and> allocate_port_range taken_host ''alpha'' \<lparr>content = Document (Some []), writes = 1\<rparr>
     = (9200, \<lparr>content = Document (Some [(''alpha'', 9200)]), writes = 2\<rparr>)"
  by (simp add: allocate_port_range_def find_next_port_base_def
        check_port_range_available_def is_port_available_def save_registry_def
        load_registry_def allocated_ports_def readonly_host_def taken_host_def fresh_disk_def
        MCP_BASE_PORT_def MCP_PORT_RANGE_def Let_def upt_rec)

text \<open>
  The second call must also be able to read the registry: when its read raises, it takes
  the registry as empty and allocates again.
\<close>

lemma allocate_twice_unread:
  "allocate_port_range quiet_host ''alpha'' fresh_disk
   = (9100, \<lparr>content = Document (Some [(''alpha'', 9100)]), writes = 1\<rparr>)
   \<and> fst (allocate_port_range
            (taken_host\<lparr>read_raises := (\<lambda>site. True)\<rparr>) ''alpha''
            \<lparr>content = Document (Some [(''alpha'', 9100)]), writes = 1\<rparr>)
     = 9200"
  by (simp add: allocate_port_range_def find_next_port_base_def
        check_port_range_available_def is_port_available_def save_registry_def
        load_registry_def allocated_ports_def quiet_host_def taken_host_def fresh_disk_def
        MCP_BASE_PORT_def MCP_PORT_RANGE_def Let_def upt_rec)

text \<open>
  C2, amended. After a call of \<open>allocate_port_range\<close> whose registry write succeeded, a
  second call for the same instance name that can read the registry, with no release in
  between, returns the same base port and leaves the registry file as it is (content and
  count of writes), whatever the probes answer during the second call.
\<close>

theorem allocate_idempotent:
  assumes "write_result h1 = Written"
    and "\<not> read_raises h2 In_allocate_port_range"
    and "allocate_port_range h1 instance_name d = (port, d')"
  shows "allocate_port_range h2 instance_name d' = (port, d')"
proof -
  let ?seen = "allocated_ports (load_registry h1 In_allocate_port_range d)"
  have stored: "map_of (stored_ports d') instance_name = Some port"
  proof (cases "map_of ?seen instance_name")
    case None
    with assms(3) have "d' = snd (save_registry h1 (AList.update instance_name port ?seen) d)"
      by (auto simp add: allocate_port_range_def Let_def)
    then have "stored_ports d' = AList.update instance_name port ?seen"
      using assms(1) by (simp add: stored_after_save)
    then show ?thesis by (simp add: update_conv')
  next
    case (Some a)
    with assms(3) have "a = port" and "d' = d"
      by (simp_all add: allocate_port_range_def Let_def)
    with Some show ?thesis
      by (auto simp add: load_registry_def stored_ports_def allocated_ports_def
            split: json_file.splits if_splits)
  qed
  then show ?thesis
    using loaded_when_read [OF assms(2), of d']
    by (simp add: allocate_port_range_def Let_def)
qed

theorem allocate_idempotent_witness:
  "allocate_port_range quiet_host ''alpha'' fresh_disk
   = (9100, \<lparr>content = Document (Some [(''alpha'', 9100)]), writes = 1\<rparr>)
   \<and> allocate_port_range taken_host ''alpha''
       \<lparr>content = Document (Some [(''alpha'', 9100)]), writes = 1\<rparr>
     = (9100, \<lparr>content = Document (Some [(''alpha'', 9100)]), writes = 1\<rparr>)"
  using allocate_idempotent
          [of quiet_host taken_host "''alpha''" fresh_disk 9100
              "\<lparr>content = Document (Some [(''alpha'', 9100)]), writes = 1\<rparr>"]
  by (simp add: allocate_port_range_def find_next_port_base_def
        check_port_range_available_def is_port_available_def save_registry_def
        load_registry_def allocated_ports_def quiet_host_def taken_host_def fresh_disk_def
        MCP_BASE_PORT_def MCP_PORT_RANGE_def Let_def upt_rec)

subsection \<open>Ranges of different instances do not overlap\<close>

lemma update_new_key:
  "map_of al k = None \<Longrightarrow> AList.update k v al = al @ [(k, v)]"
  by (induction al) (auto split: if_splits)

lemma find_next_above_allocated:
  assumes "(a, p) \<in> set (allocated_ports (load_registry h In_find_next_port_base d))"
  shows "p + MCP_PORT_RANGE \<le> find_next_port_base h d"
proof -
  let ?ps = "allocated_ports (load_registry h In_find_next_port_base d)"
  let ?hi = "foldl max MCP_BASE_PORT (map snd ?ps)"
  have "p \<in> set (map snd ?ps)"
    using assms by force
  then have le: "p \<le> ?hi" by (rule foldl_max_ge_elem)
  have "?hi + MCP_PORT_RANGE \<le> find_next_port_base h d"
    by (simp add: find_next_port_base_def Let_def MCP_PORT_RANGE_def split: option.split)
  with le show ?thesis by simp
qed

text \<open>
  One allocation whose reads and write succeed keeps the invariant, leaves the instance
  with the returned base in the registry, and keeps every entry that was there.
\<close>

lemma allocate_step:
  assumes io: "io_succeeds h"
    and inv: "ranges_apart (stored_ports d)"
    and run: "allocate_port_range h instance_name d = (port, d')"
  shows "ranges_apart (stored_ports d')"
    and "map_of (stored_ports d') instance_name = Some port"
    and "map_of (stored_ports d) m = Some q \<Longrightarrow> map_of (stored_ports d') m = Some q"
proof -
  let ?ps = "stored_ports d"
  let ?ps' = "stored_ports d'"
  from io have w: "write_result h = Written"
    and ra: "allocated_ports (load_registry h In_allocate_port_range d) = ?ps"
    and rf: "allocated_ports (load_registry h In_find_next_port_base d) = ?ps"
    by (simp_all add: io_succeeds_def loaded_when_read)
  show "ranges_apart ?ps'" and "map_of ?ps' instance_name = Some port"
    and "map_of ?ps m = Some q \<Longrightarrow> map_of ?ps' m = Some q"
  proof (atomize (full), cases "map_of ?ps instance_name")
    case (Some a)
    with run have "d' = d" and "a = port"
      by (simp_all add: allocate_port_range_def ra Let_def)
    with inv Some show "ranges_apart ?ps' \<and> map_of ?ps' instance_name = Some port
        \<and> (map_of ?ps m = Some q \<longrightarrow> map_of ?ps' m = Some q)"
      by simp
  next
    case None
    with run have port: "port = find_next_port_base h d"
      and d': "d' = snd (save_registry h (AList.update instance_name port ?ps) d)"
      by (auto simp add: allocate_port_range_def ra Let_def)
    have ps': "?ps' = AList.update instance_name port ?ps"
      unfolding d' using w by (rule stored_after_save)
    from None have app: "?ps' = ?ps @ [(instance_name, port)]"
      unfolding ps' by (rule update_new_key)
    have far: "q + MCP_PORT_RANGE \<le> port" if "(b, q) \<in> set ?ps" for b q
      unfolding port using that find_next_above_allocated [of b q h d] by (simp add: rf)
    have "MCP_PORT_RANGE \<le> \<bar>p - q\<bar>"
      if mem: "(a, p) \<in> set ?ps'" "(b, q) \<in> set ?ps'" and neq: "a \<noteq> b" for a p b q
    proof -
      consider "(a, p) \<in> set ?ps" "(b, q) \<in> set ?ps"
        | "(a, p) \<in> set ?ps" "(b, q) = (instance_name, port)"
        | "(a, p) = (instance_name, port)" "(b, q) \<in> set ?ps"
        | "(a, p) = (instance_name, port)" "(b, q) = (instance_name, port)"
        using mem unfolding app by auto
      then show ?thesis
      proof cases
        case 1
        with inv neq show ?thesis unfolding ranges_apart_def by fast
      next
        case 2
        then show ?thesis using far [of a p] by simp
      next
        case 3
        then show ?thesis using far [of b q] by simp
      next
        case 4
        with neq show ?thesis by simp
      qed
    qed
    then have apart: "ranges_apart ?ps'" unfolding ranges_apart_def by blast
    have here: "map_of ?ps' instance_name = Some port"
      by (simp add: ps' update_conv')
    have kept: "map_of ?ps m = Some q \<longrightarrow> map_of ?ps' m = Some q"
      using None by (auto simp add: ps' update_conv')
    from apart here kept
    show "ranges_apart ?ps' \<and> map_of ?ps' instance_name = Some port
        \<and> (map_of ?ps m = Some q \<longrightarrow> map_of ?ps' m = Some q)"
      by simp
  qed
qed

text \<open>
  After a sequence of allocations the registry holds, for every call, the base that the
  call returned.
\<close>

lemma allocate_all_registry:
  assumes "ranges_apart (stored_ports d)"
    and "distinct (map snd calls)"
    and "\<forall>c \<in> set calls. io_succeeds (fst c)"
    and "allocate_all d calls = (bs, d')"
  shows "ranges_apart (stored_ports d')
         \<and> length bs = length calls
         \<and> (\<forall>i<length calls. map_of (stored_ports d') (snd (calls ! i)) = Some (bs ! i))
         \<and> (\<forall>m q. map_of (stored_ports d) m = Some q
               \<longrightarrow> map_of (stored_ports d') m = Some q)"
  using assms
proof (induction calls arbitrary: d bs d')
  case Nil
  then show ?case by simp
next
  case (Cons c calls)
  obtain h n where c: "c = (h, n)" by (cases c)
  obtain port d1 where step: "allocate_port_range h n d = (port, d1)"
    by (cases "allocate_port_range h n d")
  obtain rest d2 where tl: "allocate_all d1 calls = (rest, d2)"
    by (cases "allocate_all d1 calls")
  from Cons.prems(4) c step tl have bs: "bs = port # rest" and d': "d' = d2"
    by simp_all
  from Cons.prems(3) c have io: "io_succeeds h" by simp
  note st = allocate_step [OF io Cons.prems(1) step]
  have ih: "ranges_apart (stored_ports d2)
         \<and> length rest = length calls
         \<and> (\<forall>i<length calls. map_of (stored_ports d2) (snd (calls ! i)) = Some (rest ! i))
         \<and> (\<forall>m q. map_of (stored_ports d1) m = Some q
               \<longrightarrow> map_of (stored_ports d2) m = Some q)"
    using Cons.IH [OF st(1) _ _ tl] Cons.prems(2,3) by simp
  have keep: "map_of (stored_ports d2) m = Some q"
    if "map_of (stored_ports d) m = Some q" for m q
    using ih st(3) [OF that] by blast
  have idx: "map_of (stored_ports d2) (snd ((c # calls) ! i)) = Some ((port # rest) ! i)"
    if "i < length (c # calls)" for i
  proof (cases i)
    case 0
    then show ?thesis using ih st(2) c by simp
  next
    case (Suc k)
    then show ?thesis using ih that by simp
  qed
  show ?case unfolding bs d' using ih keep idx by simp
qed

lemma three_calls_run:
  "fst (allocate_all \<lparr>content = NoFile, writes = 0\<rparr> three_calls) = [9100, 9200, 9300]"
  by (simp add: three_calls_def allocate_port_range_def
        find_next_port_base_def check_port_range_available_def is_port_available_def
        load_registry_def allocated_ports_def save_registry_def quiet_host_def busy_host_def
        MCP_BASE_PORT_def MCP_PORT_RANGE_def Let_def upt_rec)

text \<open>
  C1, as the claim states it, fails: when the registry cannot be written, the calls for
  the distinct names \<open>alpha\<close> and \<open>beta\<close> both return base port 9100.
\<close>

theorem allocated_ranges_counterexample:
  "fst (allocate_all fresh_disk readonly_calls) = [9100, 9100]"
  by (simp add: readonly_calls_def allocate_port_range_def
        find_next_port_base_def check_port_range_available_def is_port_available_def
        load_registry_def allocated_ports_def save_registry_def readonly_host_def
        fresh_disk_def MCP_BASE_PORT_def MCP_PORT_RANGE_def Let_def upt_rec)

text \<open>
  The two other conditions of the amended claim are needed as well: a call whose read of
  the registry raises takes the registry as empty and returns 9100 again, and bases that
  overlap in the registry at the start are returned as they are.
\<close>

lemma allocated_ranges_unread:
  "fst (allocate_all fresh_disk blind_calls) = [9100, 9100]"
  by (simp add: blind_calls_def allocate_port_range_def
        find_next_port_base_def check_port_range_available_def is_port_available_def
        load_registry_def allocated_ports_def save_registry_def quiet_host_def
        blind_host_def fresh_disk_def MCP_BASE_PORT_def MCP_PORT_RANGE_def Let_def upt_rec)

lemma allocated_ranges_overlapping_start:
  "fst (allocate_all overlapping_disk [(quiet_host, ''alpha''), (quiet_host, ''beta'')])
   = [9100, 9150]"
  by (simp add: allocate_port_range_def load_registry_def allocated_ports_def
        quiet_host_def overlapping_disk_def Let_def)

text \<open>
  C1, amended. In a sequence of \<open>allocate_port_range\<close> calls with pairwise distinct
  instance names and no release in between, in which every read and every write of the
  registry succeeds and which starts from a registry whose bases are at least
  \<open>MCP_PORT_RANGE\<close> apart (the missing, the unloadable and the empty registry are such),
  the base ports returned by two different calls are at least \<open>MCP_PORT_RANGE\<close> apart,
  whatever the probes answer in each call.
\<close>

theorem allocated_ranges_apart:
  assumes "ranges_apart (stored_ports d)"
    and "distinct (map snd calls)"
    and "\<forall>c \<in> set calls. io_succeeds (fst c)"
    and "i < j" and "j < length calls"
  shows "MCP_PORT_RANGE
         \<le> \<bar>fst (allocate_all d calls) ! i - fst (allocate_all d calls) ! j\<bar>"
proof -
  obtain bs d' where run: "allocate_all d calls = (bs, d')"
    by (cases "allocate_all d calls")
  note reg = allocate_all_registry [OF assms(1-3) run]
  let ?ps = "stored_ports d'"
  from assms(4,5) have i: "i < length calls" by simp
  have "map_of ?ps (snd (calls ! i)) = Some (bs ! i)" using reg i by blast
  then have mi: "(snd (calls ! i), bs ! i) \<in> set ?ps" by (rule map_of_SomeD)
  have "map_of ?ps (snd (calls ! j)) = Some (bs ! j)" using reg assms(5) by blast
  then have mj: "(snd (calls ! j), bs ! j) \<in> set ?ps" by (rule map_of_SomeD)
  have "snd (calls ! i) \<noteq> snd (calls ! j)"
    using assms(2,4,5) i by (simp add: distinct_conv_nth)
  with mi mj reg have "MCP_PORT_RANGE \<le> \<bar>bs ! i - bs ! j\<bar>"
    unfolding ranges_apart_def by fast
  then show ?thesis using run by simp
qed

theorem allocated_ranges_apart_witness:
  "fst (allocate_all \<lparr>content = NoFile, writes = 0\<rparr> three_calls) = [9100, 9200, 9300]
   \<and> MCP_PORT_RANGE
     \<le> \<bar>fst (allocate_all \<lparr>content = NoFile, writes = 0\<rparr> three_calls) ! 0
        - fst (allocate_all \<lparr>content = NoFile, writes = 0\<rparr> three_calls) ! 2\<bar>"
  using allocated_ranges_apart [of "\<lparr>content = NoFile, writes = 0\<rparr>" three_calls 0 2]
    three_calls_run
  by (simp add: three_calls_def ranges_apart_def stored_ports_def io_succeeds_def
        quiet_host_def busy_host_def)

section \<open>Properties of the process supervisor\<close>


text \<open>
  Whatever the child does, \<open>stop_server\<close> on a pair tracked with a live child leaves the
  pair in the table, with the handle as the termination sequence left it.
\<close>

lemma stop_live_server_stays_tracked:
  assumes "tracked s instance_name server_name = Some proc" and "alive proc"
  shows "tracked (snd (stop_server r instance_name server_name s)) instance_name server_name
         = Some (snd (terminate_and_wait r proc))"
  using assms
  by (auto simp add: tracked_def stop_server_def update_conv'
        split: option.splits prod.splits bool.splits)

text \<open>
  C3. The code at the failing input: the server \<open>memory\<close> of \<open>alpha\<close> is tracked and
  alive (the state that \<open>start_memory\<close> reaches), and its child exits on \<open>terminate()\<close>. \<open>stop_server\<close> terminates it, waits 3
  seconds and returns true, and the pair is still in the table afterwards, with the handle
  of the exited child.
\<close>

theorem stop_live_server_keeps_entry:
  "is_server_running memory_started ''alpha'' ''memory''
   \<and> fst (stop_server graceful ''alpha'' ''memory'' memory_started) = True
   \<and> tracked (snd (stop_server graceful ''alpha'' ''memory'' memory_started))
        ''alpha'' ''memory''
     = Some (memory_process\<lparr>alive := False, history := [Terminate, Wait 3]\<rparr>)"
  by (simp add: memory_started_def memory_process_def is_server_running_def stop_server_def
        terminate_and_wait_def graceful_def tracked_def)

text \<open>
  Once \<open>success\<close> is false the loop of \<open>start_all_servers\<close> starts nothing more.
\<close>

lemma start_each_after_failure:
  "start_each sys sb instance_name rest False s = (False, s)"
  by (induction rest) auto

text \<open>
  C4. The code at the failing input: \<open>alpha\<close> has two auto-start servers, \<open>filesystem\<close>
  (whose command cannot be launched) before \<open>memory\<close>. \<open>start_all_servers\<close> returns false
  and \<open>memory\<close> is not tracked afterwards, although starting \<open>memory\<close> by itself succeeds:
  after the first failure no further start is attempted.
\<close>

theorem start_all_stops_at_first_failure:
  "fst (start_server node_os alpha_sandbox ''alpha'' ''filesystem'' idle) = False
   \<and> fst (start_server node_os alpha_sandbox ''alpha'' ''memory'' idle) = True
   \<and> fst (start_all_servers node_os alpha_sandbox ''alpha'' idle) = False
   \<and> tracked (snd (start_all_servers node_os alpha_sandbox ''alpha'' idle)) ''alpha'' ''memory''
     = None"
  by (simp add: start_all_servers_def start_server_def launch_server_def idle_def
        alpha_sandbox_def node_os_def memory_config_def broken_config_def
        get_instance_mcp_config_def instance_servers_def full_command_def child_env_def
        get_port_from_args_def py_int_def is_int_space_def unsigned_value_def is_digit_def
        MAX_STR_DIGITS_def str_int_def str_nat.simps digit_char_def tracked_def Let_def)

text \<open>
  C8, as the claim states it, fails: when the pair is tracked with a live child and the
  configuration document has gone, \<open>start_server\<close> returns true and the pair is still
  tracked afterwards.
\<close>

theorem start_without_configuration_counterexample:
  "configuration_entry no_sandboxes ''alpha'' ''memory'' = None
   \<and> fst (start_server node_os no_sandboxes ''alpha'' ''memory'' memory_started) = True
   \<and> is_server_running
       (snd (start_server node_os no_sandboxes ''alpha'' ''memory'' memory_started))
       ''alpha'' ''memory''"
  by (simp add: memory_started_def memory_process_def configuration_entry_def
        no_sandboxes_def start_server_def instance_servers_def is_server_running_def)

lemma launch_without_entry:
  assumes "configuration_entry sb instance_name server_name = None"
  shows "launch_server sys sb instance_name server_name s = (False, s)"
  using assms
  by (auto simp add: launch_server_def configuration_entry_def get_instance_mcp_config_def
        split: json_file.splits option.splits)

text \<open>
  C8, amended. For every pair such that the configuration document of the instance is
  absent or has no entry for the server, and that is not tracked with a live child,
  \<open>start_server\<close> returns false and creates no tracking entry: the handle tracked for the
  pair, if any, is the one tracked before.
\<close>

theorem start_without_configuration:
  assumes "configuration_entry sb instance_name server_name = None"
    and "\<not> is_server_running s instance_name server_name"
  shows "fst (start_server sys sb instance_name server_name s) = False
         \<and> tracked (snd (start_server sys sb instance_name server_name s))
              instance_name server_name
           = tracked s instance_name server_name"
proof (cases "map_of (servers s) instance_name")
  case None
  then show ?thesis
    using assms(1)
    by (simp add: start_server_def launch_without_entry instance_servers_def tracked_def
          update_conv')
next
  case (Some m)
  then show ?thesis
    using assms
    by (auto simp add: start_server_def launch_without_entry instance_servers_def tracked_def
          is_server_running_def split: option.splits)
qed

theorem start_without_configuration_witness:
  "fst (start_server node_os alpha_sandbox ''alpha'' ''repl'' memory_started) = False
   \<and> tracked (snd (start_server node_os alpha_sandbox ''alpha'' ''repl'' memory_started))
        ''alpha'' ''repl''
     = None"
  using start_without_configuration
          [of alpha_sandbox "''alpha''" "''repl''" memory_started node_os]
  by (simp add: memory_started_def memory_process_def configuration_entry_def
        alpha_sandbox_def is_server_running_def tracked_def)

subsection \<open>The log after start, drain and stop\<close>




































end
